theory Spec2Isabelle
  imports Complex_Main "HOL-Library.Sublist"
begin

section \<open>Data model of the executive\<close>

text \<open>
  The planning core of the coverage controller: \<open>Executive\<close> (executive.cpp) and
  \<open>AStarPlanner::plan\<close> (AStarPlanner.cpp). C++ \<open>double\<close> values are modelled as
  \<open>real\<close>; where IEEE arithmetic differs from the field of the reals in a way the code
  can reach with finite inputs (division by zero) the difference is written out.
  Collaborators whose code is not among the sources (RibbonManager, DubinsPlan, State,
  TrajectoryPublisher, Vertex, the vertex queue) are parameters of the model.
\<close>

datatype PlannerState = Inactive | Running | Cancelled

datatype Heuristic =
    MaxDistance
  | TspPointRobotNoSplitAllRibbons
  | TspPointRobotNoSplitKRibbons
  | TspDubinsNoSplitAllRibbons
  | TspDubinsNoSplitKRibbons

text \<open>\<open>State\<close>: the tuple (x, y, heading, speed, time).\<close>

record State =
  state_x :: real
  state_y :: real
  state_heading :: real
  state_speed :: real
  state_time :: real

text \<open>
  Modelled from the spec: class \<open>RibbonManager\<close> is not among the sources. The spec gives
  it as a collection of uncovered ribbons plus a chosen heuristic; the constructor call in
  \<open>clearRibbons\<close> passes a heuristic, a turning radius and a ribbon count \<open>k\<close>. The
  ribbon collection itself stays opaque (\<open>'r\<close>).
\<close>

record 'r RibbonManager =
  rm_Heuristic :: Heuristic
  rm_TurningRadius :: real
  rm_K :: int
  rm_Ribbons :: 'r

definition RibbonManager_new :: "'r \<Rightarrow> Heuristic \<Rightarrow> real \<Rightarrow> int \<Rightarrow> 'r RibbonManager" where
  "RibbonManager_new noRibbons h r k =
     \<lparr>rm_Heuristic = h, rm_TurningRadius = r, rm_K = k, rm_Ribbons = noRibbons\<rparr>"

definition setHeuristic :: "Heuristic \<Rightarrow> 'r RibbonManager \<Rightarrow> 'r RibbonManager" where
  "setHeuristic h rm = rm\<lparr>rm_Heuristic := h\<rparr>"

record ('obs, 'map) PlannerConfig =
  cfg_MaxSpeed :: real
  cfg_TurningRadius :: real
  cfg_CoverageTurningRadius :: real
  cfg_BranchingFactor :: int
  cfg_Obstacles :: 'obs
  cfg_Map :: "'map option"
  cfg_StartStateTime :: real

text \<open>
  The members of \<open>Executive\<close> the modelled operations touch. \<open>cerr\<close> is the standard
  error stream, one entry per message; \<open>ribbonWidth\<close> is the process-wide ribbon width
  behind \<open>RibbonManager::setRibbonWidth\<close>; \<open>clockReads\<close> counts the calls made to
  \<open>m_TrajectoryPublisher->getTime()\<close>, and \<open>published\<close> records the other calls made to
  the publisher.
\<close>

datatype ('r, 'e) PublisherCall =
    AllDone
  | DisplayRibbons "'r RibbonManager"
  | DisplayTrajectory "State list" bool
  | PublishPlan "'e list"
  | SleepMilliseconds int

record ('r, 'obs, 'map, 'e) Executive =
  m_LastHeading :: real
  m_LastUpdateTime :: real
  m_LastState :: State
  m_RibbonManager :: "'r RibbonManager"
  m_PlannerState :: PlannerState
  m_PlannerConfig :: "('obs, 'map) PlannerConfig"
  m_DynamicObstaclesManager :: 'obs
  m_NewMap :: "'map option"
  m_CurrentMapPath :: string
  m_RadiusShrink :: real
  ribbonWidth :: real
  cerr :: "string list"
  clockReads :: nat
  published :: "('r, 'e) PublisherCall list"

text \<open>The compile-time constants of executive.h, which is not among the sources.\<close>

record Constants =
  c_PlanningTimeSeconds :: real
  c_ReusePlanEnabled :: bool
  c_RadiusShrinkEnabled :: bool
  c_RadiusShrinkAmount :: real
  c_CoverageHeadingRateMax :: real

section \<open>Planner state machine and ribbon bookkeeping\<close>

text \<open>\<open>Executive::cancelPlanner\<close>.\<close>

definition cancelPlanner ::
  "('r, 'obs, 'map, 'e) Executive \<Rightarrow> ('r, 'obs, 'map, 'e) Executive" where
  "cancelPlanner ex =
     (if m_PlannerState ex = Running then ex\<lparr>m_PlannerState := Cancelled\<rparr> else ex)"

text \<open>\<open>Executive::clearRibbons\<close>; \<open>noRibbons\<close> is the empty ribbon collection.\<close>

definition clearRibbons ::
  "'r \<Rightarrow> ('r, 'obs, 'map, 'e) Executive \<Rightarrow> ('r, 'obs, 'map, 'e) Executive" where
  "clearRibbons noRibbons ex =
     ex\<lparr>m_RibbonManager :=
          RibbonManager_new noRibbons TspPointRobotNoSplitKRibbons
            (cfg_TurningRadius (m_PlannerConfig ex)) 2\<rparr>"

text \<open>\<open>Executive::setConfiguration\<close>, with the \<open>switch\<close> on the heuristic id.\<close>

definition selectHeuristic ::
  "int \<Rightarrow> ('r, 'obs, 'map, 'e) Executive \<Rightarrow> ('r, 'obs, 'map, 'e) Executive" where
  "selectHeuristic heuristic ex =
     (if heuristic = 0 then ex\<lparr>m_RibbonManager := setHeuristic MaxDistance (m_RibbonManager ex)\<rparr>
      else if heuristic = 1 then
        ex\<lparr>m_RibbonManager := setHeuristic TspPointRobotNoSplitAllRibbons (m_RibbonManager ex)\<rparr>
      else if heuristic = 2 then
        ex\<lparr>m_RibbonManager := setHeuristic TspPointRobotNoSplitKRibbons (m_RibbonManager ex)\<rparr>
      else if heuristic = 3 then
        ex\<lparr>m_RibbonManager := setHeuristic TspDubinsNoSplitAllRibbons (m_RibbonManager ex)\<rparr>
      else if heuristic = 4 then
        ex\<lparr>m_RibbonManager := setHeuristic TspDubinsNoSplitKRibbons (m_RibbonManager ex)\<rparr>
      else ex\<lparr>cerr := cerr ex @ [''Unknown heuristic. Ignoring.'']\<rparr>)"

definition setConfiguration ::
  "real \<Rightarrow> real \<Rightarrow> real \<Rightarrow> real \<Rightarrow> int \<Rightarrow> int \<Rightarrow>
   ('r, 'obs, 'map, 'e) Executive \<Rightarrow> ('r, 'obs, 'map, 'e) Executive" where
  "setConfiguration turningRadius coverageTurningRadius maxSpeed lineWidth k heuristic ex =
     selectHeuristic heuristic
       (ex\<lparr>m_PlannerConfig :=
             (m_PlannerConfig ex)\<lparr>cfg_MaxSpeed := maxSpeed,
                                   cfg_TurningRadius := turningRadius,
                                   cfg_CoverageTurningRadius := coverageTurningRadius,
                                   cfg_BranchingFactor := k\<rparr>,
           ribbonWidth := lineWidth\<rparr>)"

section \<open>Coverage updates\<close>

text \<open>
  The test in \<open>Executive::updateCovered\<close>:
  \<^verbatim>\<open>(m_LastHeading - heading) / m_LastUpdateTime <= c_CoverageHeadingRateMax\<close>.
  In IEEE arithmetic a division by zero gives an infinity with the sign of the numerator,
  or NaN for 0/0; only the negative infinity compares \<open><=\<close> a finite bound.
\<close>

definition headingRateGate :: "Constants \<Rightarrow> real \<Rightarrow> real \<Rightarrow> real \<Rightarrow> bool" where
  "headingRateGate k lastHeading heading lastUpdateTime =
     (if lastUpdateTime = 0 then lastHeading - heading < 0
      else (lastHeading - heading) / lastUpdateTime \<le> c_CoverageHeadingRateMax k)"

text \<open>\<open>Executive::updateCovered\<close>; \<open>cover\<close> is \<open>RibbonManager::cover\<close>.\<close>

definition updateCovered ::
  "Constants \<Rightarrow> (real \<Rightarrow> real \<Rightarrow> 'r RibbonManager \<Rightarrow> 'r RibbonManager) \<Rightarrow>
   real \<Rightarrow> real \<Rightarrow> real \<Rightarrow> real \<Rightarrow> real \<Rightarrow>
   ('r, 'obs, 'map, 'e) Executive \<Rightarrow> ('r, 'obs, 'map, 'e) Executive" where
  "updateCovered k cover x y speed heading t ex =
     (let ex1 = (if headingRateGate k (m_LastHeading ex) heading (m_LastUpdateTime ex)
                 then ex\<lparr>m_RibbonManager := cover x y (m_RibbonManager ex)\<rparr>
                 else ex)
      in ex1\<lparr>m_LastUpdateTime := t, m_LastHeading := heading,
              m_LastState := \<lparr>state_x = x, state_y = y, state_heading = heading,
                               state_speed = speed, state_time = t\<rparr>\<rparr>)"

text \<open>
  The heading rate as the specification words it, between a call at time \<open>t1\<close> with
  heading \<open>h1\<close> and the next at time \<open>t2\<close> with heading \<open>h2\<close>.
\<close>

definition observedHeadingRate :: "real \<Rightarrow> real \<Rightarrow> real \<Rightarrow> real \<Rightarrow> real" where
  "observedHeadingRate h1 t1 h2 t2 = \<bar>h2 - h1\<bar> / (t2 - t1)"

text \<open>
  A ribbon manager that only records the points \<open>cover\<close> is called with, to observe
  the calls made to the collaborator.
\<close>

definition recordCover ::
  "real \<Rightarrow> real \<Rightarrow> (real \<times> real) list RibbonManager \<Rightarrow> (real \<times> real) list RibbonManager" where
  "recordCover x y rm = rm\<lparr>rm_Ribbons := rm_Ribbons rm @ [(x, y)]\<rparr>"

section \<open>Map loading\<close>

datatype MapFormat = GeoTiffFormat | GridWorldFormat

text \<open>
  \<open>std::string::find\<close> from position 0: the index of the first occurrence, \<open>None\<close> for
  \<open>npos\<close>. The source compares the result with \<open>-1\<close>, which converts to \<open>npos\<close>.
\<close>

fun string_find :: "string \<Rightarrow> string \<Rightarrow> nat option" where
  "string_find [] pat = (if pat = [] then Some 0 else None)"
| "string_find (c # cs) pat =
     (if prefix pat (c # cs) then Some 0 else map_option Suc (string_find cs pat))"

definition mapFormatFor :: "string \<Rightarrow> MapFormat" where
  "mapFormatFor pathToMapFile =
     (if string_find pathToMapFile ''.map'' = None then GeoTiffFormat else GridWorldFormat)"

text \<open>
  The body of the loader task of \<open>Executive::refreshMap\<close>, run under the map mutex. The
  two map constructors are collaborators; \<open>None\<close> stands for a constructor that throws.
  Note the argument order \<open>(path, longitude, latitude)\<close> of the GeoTIFF constructor.
\<close>

definition refreshMap ::
  "(string \<Rightarrow> real \<Rightarrow> real \<Rightarrow> 'map option) \<Rightarrow> (string \<Rightarrow> 'map option) \<Rightarrow>
   string \<Rightarrow> real \<Rightarrow> real \<Rightarrow>
   ('r, 'obs, 'map, 'e) Executive \<Rightarrow> ('r, 'obs, 'map, 'e) Executive" where
  "refreshMap newGeoTiffMap newGridWorldMap pathToMapFile latitude longitude ex =
     (if m_CurrentMapPath ex \<noteq> pathToMapFile then
        (case (case mapFormatFor pathToMapFile of
                 GeoTiffFormat \<Rightarrow> newGeoTiffMap pathToMapFile longitude latitude
               | GridWorldFormat \<Rightarrow> newGridWorldMap pathToMapFile) of
           Some m \<Rightarrow> ex\<lparr>m_NewMap := Some m, m_CurrentMapPath := pathToMapFile\<rparr>
         | None \<Rightarrow>
             ex\<lparr>cerr := cerr ex @
                    [''Encountered an error loading map at path '' @ pathToMapFile @ ''.'',
                     ''Map was not updated.''],
                m_NewMap := None, m_CurrentMapPath := []\<rparr>)
      else ex)"

text \<open>
  The specification's reading of the choice: the path's extension is \<open>.map\<close>, that is,
  the path ends in \<open>.map\<close>.
\<close>

definition extensionIsMap :: "string \<Rightarrow> bool" where
  "extensionIsMap pathToMapFile = suffix ''.map'' pathToMapFile"

section \<open>The planning loop\<close>

text \<open>
  What \<open>planner->plan\<close> can throw: a \<open>std::exception\<close> with its \<open>what()\<close> text, or
  anything else (caught by \<open>catch (...)\<close>).
\<close>

datatype PlanningException = StdException string | UnknownException

text \<open>
  The collaborators of \<open>Executive::planLoop\<close>. \<open>getTime n\<close> is the reading the
  \<open>n\<close>-th call of \<open>m_TrajectoryPublisher->getTime()\<close> returns; \<open>mapTryLock n\<close> tells
  whether \<open>m_MapMutex.try_lock()\<close> succeeds after \<open>n\<close> clock readings; \<open>newState\<close> is
  the default-constructed \<open>State()\<close>; \<open>showDouble\<close> is the stream formatting of a
  \<open>double\<close>. The loop is modelled as one thread: what other threads do to the members
  while it runs is outside the model.
\<close>

record ('r, 'obs, 'map, 'e) Collaborators =
  getTime :: "nat \<Rightarrow> real"
  mapTryLock :: "nat \<Rightarrow> bool"
  ribbonsDone :: "'r RibbonManager \<Rightarrow> bool"
  coverBetween :: "real \<Rightarrow> real \<Rightarrow> real \<Rightarrow> real \<Rightarrow> 'r RibbonManager \<Rightarrow> 'r RibbonManager"
  push :: "State \<Rightarrow> real \<Rightarrow> State"
  changeIntoSuffix :: "real \<Rightarrow> 'e list \<Rightarrow> 'e list"
  plannerPlan :: "'r RibbonManager \<Rightarrow> State \<Rightarrow> ('obs, 'map) PlannerConfig \<Rightarrow> 'e list \<Rightarrow> real
                  \<Rightarrow> PlanningException + 'e list"
  getHalfSecondSamples :: "'e list \<Rightarrow> State list"
  publishPlan :: "'e list \<Rightarrow> State"
  sample :: "'e list \<Rightarrow> State \<Rightarrow> State"
  isCoLocated :: "State \<Rightarrow> State \<Rightarrow> bool"
  headingDifference :: "State \<Rightarrow> State \<Rightarrow> real"
  newState :: State
  showDouble :: "real \<Rightarrow> string"

text \<open>A \<open>DubinsPlan\<close> is the list of its Dubins paths; \<open>DubinsPlan()\<close> is \<open>[]\<close>.\<close>

type_synonym ('r, 'obs, 'map, 'e) LoopVars = "('r, 'obs, 'map, 'e) Executive \<times> State \<times> 'e list"

definition readClock ::
  "('r, 'obs, 'map, 'e) Executive \<Rightarrow> ('r, 'obs, 'map, 'e) Executive" where
  "readClock ex = ex\<lparr>clockReads := Suc (clockReads ex)\<rparr>"

definition logErr ::
  "string list \<Rightarrow> ('r, 'obs, 'map, 'e) Executive \<Rightarrow> ('r, 'obs, 'map, 'e) Executive" where
  "logErr msgs ex = ex\<lparr>cerr := cerr ex @ msgs\<rparr>"

definition publisherCalls ::
  "('r, 'e) PublisherCall list \<Rightarrow> ('r, 'obs, 'map, 'e) Executive \<Rightarrow> ('r, 'obs, 'map, 'e) Executive" where
  "publisherCalls cs ex = ex\<lparr>published := published ex @ cs\<rparr>"

text \<open>Lines 89-96: take the staged map when the map mutex is free.\<close>

definition installNewMap ::
  "bool \<Rightarrow> ('r, 'obs, 'map, 'e) Executive \<Rightarrow> ('r, 'obs, 'map, 'e) Executive" where
  "installNewMap locked ex =
     (if locked then
        (case m_NewMap ex of
           Some m \<Rightarrow> ex\<lparr>m_PlannerConfig := (m_PlannerConfig ex)\<lparr>cfg_Map := Some m\<rparr>, m_NewMap := None\<rparr>
         | None \<Rightarrow> ex\<lparr>m_NewMap := None\<rparr>)
      else ex)"

text \<open>
  Lines 99-101: \<^verbatim>\<open>if (startState.time() == -1) startState = m_LastState.push(getTime() + c_PlanningTimeSeconds - m_LastState.time())\<close>.
  \<open>now\<close> is the clock reading taken there.
\<close>

definition synthesizeStartState ::
  "(State \<Rightarrow> real \<Rightarrow> State) \<Rightarrow> Constants \<Rightarrow> real \<Rightarrow> State \<Rightarrow> State \<Rightarrow> State" where
  "synthesizeStartState pushFn k now lastState startState =
     (if state_time startState = -1
      then pushFn lastState (now + c_PlanningTimeSeconds k - state_time lastState)
      else startState)"

text \<open>Lines 103-105: the plan handed to the planner as \<open>previousPlan\<close>.\<close>

definition updateLastPlan ::
  "(real \<Rightarrow> 'e list \<Rightarrow> 'e list) \<Rightarrow> Constants \<Rightarrow> State \<Rightarrow> 'e list \<Rightarrow> 'e list" where
  "updateLastPlan suffixFn k startState plan =
     (let plan1 = (if \<not> c_ReusePlanEnabled k then [] else plan)
      in if plan1 \<noteq> [] then suffixFn (state_time startState) plan1 else plan1)"

text \<open>Lines 108-112: the experimental shrinking of the turning radii.\<close>

definition shrinkTurningRadius ::
  "Constants \<Rightarrow> ('r, 'obs, 'map, 'e) Executive \<Rightarrow> ('r, 'obs, 'map, 'e) Executive" where
  "shrinkTurningRadius k ex =
     (if c_RadiusShrinkEnabled k then
        ex\<lparr>m_PlannerConfig :=
             (m_PlannerConfig ex)
               \<lparr>cfg_TurningRadius := cfg_TurningRadius (m_PlannerConfig ex) - c_RadiusShrinkAmount k,
                cfg_CoverageTurningRadius :=
                  cfg_CoverageTurningRadius (m_PlannerConfig ex) - c_RadiusShrinkAmount k\<rparr>,
           m_RadiusShrink := m_RadiusShrink ex + c_RadiusShrinkAmount k\<rparr>
      else ex)"

text \<open>
  Lines 88-112, in the order of the source: the map, the start state (one clock reading
  when it is synthesized), the previous plan, the radii.
\<close>

definition prepareIteration ::
  "('r, 'obs, 'map, 'e) Collaborators \<Rightarrow> Constants \<Rightarrow> ('r, 'obs, 'map, 'e) LoopVars
   \<Rightarrow> ('r, 'obs, 'map, 'e) LoopVars" where
  "prepareIteration env k v =
     (case v of (ex, startState, plan) \<Rightarrow>
        (let ex1 = installNewMap (mapTryLock env (clockReads ex)) ex;
             startState1 = synthesizeStartState (push env) k (getTime env (clockReads ex1))
                             (m_LastState ex1) startState;
             ex2 = (if state_time startState = -1 then readClock ex1 else ex1);
             plan1 = updateLastPlan (changeIntoSuffix env) k startState1 plan
         in (shrinkTurningRadius k ex2, startState1, plan1)))"

text \<open>
  Lines 117-127, the body of the \<open>try\<close> block: the obstacles go into the configuration,
  the ribbon manager is copied and covered up to the start state, and the planner is called
  with the time that remains of the period. The value is what the call returns or throws.
\<close>

definition installObstacles ::
  "('r, 'obs, 'map, 'e) Executive \<Rightarrow> ('r, 'obs, 'map, 'e) Executive" where
  "installObstacles ex =
     ex\<lparr>m_PlannerConfig := (m_PlannerConfig ex)\<lparr>cfg_Obstacles := m_DynamicObstaclesManager ex\<rparr>\<rparr>"

definition planningAttempt ::
  "('r, 'obs, 'map, 'e) Collaborators \<Rightarrow> Constants \<Rightarrow> real \<Rightarrow> ('r, 'obs, 'map, 'e) LoopVars
   \<Rightarrow> PlanningException + 'e list" where
  "planningAttempt env k startTime v =
     (case v of (ex, startState, plan) \<Rightarrow>
        (let ex1 = installObstacles ex;
             ribbonManagerCopy =
               coverBetween env (state_x (m_LastState ex1)) (state_y (m_LastState ex1))
                 (state_x startState) (state_y startState) (m_RibbonManager ex1)
         in plannerPlan env ribbonManagerCopy startState (m_PlannerConfig ex1) plan
              (startTime + c_PlanningTimeSeconds k - getTime env (clockReads ex1))))"

text \<open>
  Lines 114-137 with the two handlers. \<open>Inl\<close> is the exception that leaves the loop
  (the rethrow of \<open>catch (...)\<close>), with the executive as the handler left it.
\<close>

definition tryPlanning ::
  "('r, 'obs, 'map, 'e) Collaborators \<Rightarrow> Constants \<Rightarrow> real \<Rightarrow> ('r, 'obs, 'map, 'e) LoopVars
   \<Rightarrow> ('r, 'obs, 'map, 'e) LoopVars + ('r, 'obs, 'map, 'e) LoopVars" where
  "tryPlanning env k startTime v =
     (case v of (ex, startState, plan) \<Rightarrow>
        (let ex1 = readClock (installObstacles ex)
         in case planningAttempt env k startTime v of
              Inr newPlan \<Rightarrow> Inr (ex1, startState, newPlan)
            | Inl (StdException what) \<Rightarrow>
                Inr (cancelPlanner
                       (logErr [''Exception thrown while planning:'', what, ''Pausing.''] ex1),
                     startState, plan)
            | Inl UnknownException \<Rightarrow>
                Inl (cancelPlanner
                       (logErr [''Unknown exception thrown while planning; pausing''] ex1),
                     startState, plan)))"

text \<open>Lines 165-178: the diagnostic line printed when the controller diverged.\<close>

definition divergenceReport ::
  "('r, 'obs, 'map, 'e) Collaborators \<Rightarrow> State \<Rightarrow> State \<Rightarrow> string" where
  "divergenceReport env s e =
     (if state_x s \<noteq> state_x e then
        (if state_y s \<noteq> state_y e then
           ''Position is different: ('' @ showDouble env (state_x s) @ '', '' @
           showDouble env (state_y s) @ '') vs ('' @ showDouble env (state_x e) @ '', '' @
           showDouble env (state_y e) @ ''). ''
         else ''X is different: '' @ showDouble env (state_x s) @ '' vs '' @
              showDouble env (state_x e) @ ''. '')
      else if state_y s \<noteq> state_y e then
        ''Y is different: '' @ showDouble env (state_y s) @ '' vs '' @
        showDouble env (state_y e) @ ''. ''
      else [])
     @ (if headingDifference env s e \<noteq> 0 then
          ''Headings are different: '' @ showDouble env (state_heading s) @ '' vs '' @
          showDouble env (state_heading e) @ ''. ''
        else [])"

text \<open>Lines 158-162: the roll-back of the radius shrink.\<close>

definition resetRadiusShrink ::
  "Constants \<Rightarrow> ('r, 'obs, 'map, 'e) Executive \<Rightarrow> ('r, 'obs, 'map, 'e) Executive" where
  "resetRadiusShrink k ex =
     (if c_RadiusShrinkEnabled k then
        ex\<lparr>m_PlannerConfig :=
             (m_PlannerConfig ex)
               \<lparr>cfg_TurningRadius := cfg_TurningRadius (m_PlannerConfig ex) + m_RadiusShrink ex,
                cfg_CoverageTurningRadius :=
                  cfg_CoverageTurningRadius (m_PlannerConfig ex) + m_RadiusShrink ex\<rparr>,
           m_RadiusShrink := 0\<rparr>
      else ex)"

text \<open>
  Lines 148-187: publish the plan, compare the start state the controller answers with
  the plan sampled at that state's time, and reset or keep the plan.
\<close>

definition publishAndCheck ::
  "('r, 'obs, 'map, 'e) Collaborators \<Rightarrow> Constants \<Rightarrow> ('r, 'obs, 'map, 'e) LoopVars
   \<Rightarrow> ('r, 'obs, 'map, 'e) LoopVars" where
  "publishAndCheck env k v =
     (case v of (ex, startState, plan) \<Rightarrow>
        (if plan \<noteq> [] then
           (let startState1 = publishPlan env plan;
                ex1 = publisherCalls [PublishPlan plan] ex;
                expectedStartState = sample env plan startState1
            in if \<not> isCoLocated env startState1 expectedStartState then
                 (logErr [''Start state is not along previous plan; did the controller let us know?'',
                          divergenceReport env startState1 expectedStartState]
                    (resetRadiusShrink k ex1),
                  startState1, [])
               else (ex1\<lparr>m_RadiusShrink := m_RadiusShrink ex1 + c_RadiusShrinkAmount k\<rparr>,
                     startState1, plan))
         else (logErr [''Planner returned empty trajectory.''] ex, newState env, plan)))"

text \<open>
  Lines 139-146: the time left of the period is slept and the trajectory displayed. The
  cast \<open>(int)\<close> truncates a value that is not negative here.
\<close>

definition sleepAndDisplay ::
  "('r, 'obs, 'map, 'e) Collaborators \<Rightarrow> Constants \<Rightarrow> real \<Rightarrow> ('r, 'obs, 'map, 'e) LoopVars
   \<Rightarrow> ('r, 'obs, 'map, 'e) LoopVars" where
  "sleepAndDisplay env k startTime v =
     (case v of (ex, startState, plan) \<Rightarrow>
        (let endTime = getTime env (clockReads ex);
             sleepTime = (if endTime - startTime \<le> c_PlanningTimeSeconds k
                          then \<lfloor>(c_PlanningTimeSeconds k - (endTime - startTime)) * 1000\<rfloor>
                          else 0)
         in (publisherCalls [SleepMilliseconds sleepTime,
                             DisplayTrajectory (getHalfSecondSamples env plan) True]
               (readClock ex),
             startState, plan)))"

text \<open>One pass through the body of \<open>while (true)\<close>.\<close>

datatype 'a LoopStep = Continue 'a | Break 'a | Rethrow 'a

definition planLoopIteration ::
  "('r, 'obs, 'map, 'e) Collaborators \<Rightarrow> Constants \<Rightarrow> ('r, 'obs, 'map, 'e) LoopVars
   \<Rightarrow> ('r, 'obs, 'map, 'e) LoopVars LoopStep" where
  "planLoopIteration env k v =
     (case v of (ex, startState, plan) \<Rightarrow>
        (let startTime = getTime env (clockReads ex);
             ex1 = readClock ex
         in if m_PlannerState ex1 = Cancelled then Break (ex1, startState, plan)
            else if ribbonsDone env (m_RibbonManager ex1) then
              Break (publisherCalls [AllDone] (logErr [''Finished covering ribbons''] ex1),
                     startState, plan)
            else
              (case tryPlanning env k startTime
                      (prepareIteration env k
                         (publisherCalls [DisplayRibbons (m_RibbonManager ex1)] ex1,
                          startState, plan)) of
                 Inl thrown \<Rightarrow> Rethrow thrown
               | Inr planned \<Rightarrow>
                   Continue (publishAndCheck env k (sleepAndDisplay env k startTime planned)))))"

text \<open>
  The loop itself. It need not end (the ribbons may never be done), so it is a partial
  function: \<open>None\<close> is a loop that runs forever.
\<close>

partial_function (option) planLoopWhile ::
  "('r, 'obs, 'map, 'e) Collaborators \<Rightarrow> Constants \<Rightarrow> ('r, 'obs, 'map, 'e) LoopVars
   \<Rightarrow> ('r, 'obs, 'map, 'e) LoopVars LoopStep option" where
  "planLoopWhile env k v =
     (case planLoopIteration env k v of
        Continue v' \<Rightarrow> planLoopWhile env k v'
      | Break v' \<Rightarrow> Some (Break v')
      | Rethrow v' \<Rightarrow> Some (Rethrow v'))"

text \<open>
  \<open>Executive::planLoop\<close>: the start-up check, the loop, and the return to \<open>Inactive\<close>.
  \<open>Inl\<close> is an exception leaving \<open>planLoop\<close>, which skips the last lines.
\<close>

definition planLoop ::
  "('r, 'obs, 'map, 'e) Collaborators \<Rightarrow> Constants \<Rightarrow> ('r, 'obs, 'map, 'e) Executive
   \<Rightarrow> (('r, 'obs, 'map, 'e) Executive + ('r, 'obs, 'map, 'e) Executive) option" where
  "planLoop env k ex0 =
     (let ex = logErr [''Initializing planner''] ex0
      in if m_PlannerState ex = Cancelled then
           Some (Inr (logErr [''Planner initialization timed out. Cancel flag is still set.'',
                              ''I think this happens when there was an error of some kind in the previous planning iteration.'',
                              ''You're gonna have to restart the planner node if you want to keep using it.'',
                              []] ex))
         else
           (case planLoopWhile env k (ex\<lparr>m_PlannerState := Running\<rparr>, newState env, []) of
              None \<Rightarrow> None
            | Some (Rethrow (ex', _, _)) \<Rightarrow> Some (Inl ex')
            | Some (Break (ex', _, _)) \<Rightarrow> Some (Inr (ex'\<lparr>m_PlannerState := Inactive\<rparr>))
            | Some (Continue (ex', _, _)) \<Rightarrow> Some (Inr (ex'\<lparr>m_PlannerState := Inactive\<rparr>))))"

section \<open>The anytime A* planner\<close>

text \<open>
  Modelled from the spec: class \<open>Vertex\<close> is not among the sources. The spec gives a
  vertex as a node of a tree, made by \<open>makeRoot\<close> from the start state and the ribbons or
  by \<open>connect\<close> from a parent, along a Dubins path of the previous plan or to a state
  with a turning radius and a coverage flag. Two vertices are the same object exactly when
  they were made the same way, so the pointer comparison \<open>lastPlanEnd != startV\<close> is
  inequality of the terms.
\<close>

datatype ('w, 'r) Vertex =
    Root State "'r RibbonManager"
  | ConnectPath "('w, 'r) Vertex" 'w
  | ConnectState "('w, 'r) Vertex" State real bool

text \<open>
  The members of \<open>AStarPlanner\<close> that \<open>plan\<close> and \<open>aStar\<close> read or write. The vertex
  queue \<open>'q\<close> and the sample states are held as their owner keeps them.
\<close>

record ('w, 'r, 'obs, 'map, 'q) AStarPlanner =
  m_Config :: "('obs, 'map) PlannerConfig"
  m_PlannerRibbonManager :: "'r RibbonManager"
  m_ExpandedCount :: nat
  m_IterationCount :: nat
  m_StartStateTime :: real
  m_Samples :: "State list"
  m_BestVertex :: "('w, 'r) Vertex option"
  m_VertexQueue :: 'q

text \<open>
  The calls a run of \<open>plan\<close> makes to code that is not among the sources, in order, and
  the lines it writes to \<open>m_Config.output()\<close>.
\<close>

datatype ('w, 'r) PlannerCall =
    ClearVertexQueue
  | PushVertexQueue "('w, 'r) Vertex"
  | PopVertexQueue
  | AddSamples "nat option"
  | Expand "('w, 'r) Vertex"
  | ComputeTrueCost "('w, 'r) Vertex"
  | ComputeApproxToGo "('w, 'r) Vertex"
  | VisualizeVertex "('w, 'r) Vertex" string
  | TracePlan "('w, 'r) Vertex"
  | OutputLine string
  | OutputCounts nat nat nat

text \<open>
  A run: the planner object, the number of readings taken of the clock \<open>now()\<close>, and the
  calls made so far.
\<close>

record ('w, 'r, 'obs, 'map, 'q) Run =
  planner :: "('w, 'r, 'obs, 'map, 'q) AStarPlanner"
  clock :: nat
  calls :: "('w, 'r) PlannerCall list"

text \<open>
  The code \<open>plan\<close> calls and the sources do not hold. \<open>now n\<close> is the \<open>n\<close>-th reading of
  the configured clock; \<open>vertexF\<close> is \<open>Vertex::f()\<close>; \<open>edgeInfeasible cfg v\<close> is
  \<open>v->parentEdge()->infeasible()\<close> once \<open>computeTrueCost(cfg)\<close> has run on the edge;
  \<open>addSamples\<close> is given the generator and the count (\<open>None\<close> for the overload without
  a count) and returns the generator and the samples.
\<close>

record ('w, 'r, 'obs, 'map, 'q, 'g) PlannerOps =
  now :: "nat \<Rightarrow> real"
  timeHorizon :: real
  c_InitialSamples :: nat
  changeHeuristicIfTooManyRibbons :: "'r RibbonManager \<Rightarrow> 'r RibbonManager"
  newStateGenerator :: "real \<Rightarrow> real \<Rightarrow> real \<Rightarrow> real \<Rightarrow> real \<Rightarrow> real \<Rightarrow> int \<Rightarrow> 'r RibbonManager \<Rightarrow> 'g"
  findStatesOnRibbonsOnCircle :: "'r RibbonManager \<Rightarrow> State \<Rightarrow> real \<Rightarrow> State list"
  findNearStatesOnRibbons :: "'r RibbonManager \<Rightarrow> State \<Rightarrow> real \<Rightarrow> State list"
  vertexF :: "('w, 'r) Vertex \<Rightarrow> real"
  edgeInfeasible :: "('obs, 'map) PlannerConfig \<Rightarrow> ('w, 'r) Vertex \<Rightarrow> bool"
  goalCondition :: "('w, 'r) Vertex \<Rightarrow> bool"
  clearVertexQueue :: "'q \<Rightarrow> 'q"
  pushVertexQueue :: "('w, 'r) Vertex \<Rightarrow> ('w, 'r, 'obs, 'map, 'q) AStarPlanner \<Rightarrow> 'q"
  popVertexQueue :: "('w, 'r, 'obs, 'map, 'q) AStarPlanner \<Rightarrow> ('w, 'r) Vertex \<times> 'q"
  vertexQueueEmpty :: "'q \<Rightarrow> bool"
  expand :: "('w, 'r) Vertex \<Rightarrow> 'obs \<Rightarrow> ('w, 'r, 'obs, 'map, 'q) AStarPlanner
             \<Rightarrow> ('w, 'r, 'obs, 'map, 'q) AStarPlanner"
  addSamples :: "'g \<Rightarrow> nat option \<Rightarrow> State list \<Rightarrow> 'g \<times> State list"
  tracePlan :: "('w, 'r) Vertex \<Rightarrow> bool \<Rightarrow> 'obs \<Rightarrow> 'w list"

definition called ::
  "('w, 'r) PlannerCall list \<Rightarrow> ('w, 'r, 'obs, 'map, 'q) Run \<Rightarrow> ('w, 'r, 'obs, 'map, 'q) Run" where
  "called cs run = run\<lparr>calls := calls run @ cs\<rparr>"

definition tick :: "('w, 'r, 'obs, 'map, 'q) Run \<Rightarrow> ('w, 'r, 'obs, 'map, 'q) Run" where
  "tick run = run\<lparr>clock := Suc (clock run)\<rparr>"

definition doClearVertexQueue ::
  "('w, 'r, 'obs, 'map, 'q, 'g) PlannerOps \<Rightarrow> ('w, 'r, 'obs, 'map, 'q) Run
   \<Rightarrow> ('w, 'r, 'obs, 'map, 'q) Run" where
  "doClearVertexQueue ops run =
     called [ClearVertexQueue]
       (run\<lparr>planner := (planner run)\<lparr>m_VertexQueue :=
                          clearVertexQueue ops (m_VertexQueue (planner run))\<rparr>\<rparr>)"

definition doPushVertexQueue ::
  "('w, 'r, 'obs, 'map, 'q, 'g) PlannerOps \<Rightarrow> ('w, 'r) Vertex \<Rightarrow> ('w, 'r, 'obs, 'map, 'q) Run
   \<Rightarrow> ('w, 'r, 'obs, 'map, 'q) Run" where
  "doPushVertexQueue ops v run =
     called [PushVertexQueue v]
       (run\<lparr>planner := (planner run)\<lparr>m_VertexQueue := pushVertexQueue ops v (planner run)\<rparr>\<rparr>)"

definition doPopVertexQueue ::
  "('w, 'r, 'obs, 'map, 'q, 'g) PlannerOps \<Rightarrow> ('w, 'r, 'obs, 'map, 'q) Run
   \<Rightarrow> ('w, 'r) Vertex \<times> ('w, 'r, 'obs, 'map, 'q) Run" where
  "doPopVertexQueue ops run =
     (fst (popVertexQueue ops (planner run)),
      called [PopVertexQueue]
        (run\<lparr>planner := (planner run)\<lparr>m_VertexQueue := snd (popVertexQueue ops (planner run))\<rparr>\<rparr>))"

definition doExpand ::
  "('w, 'r, 'obs, 'map, 'q, 'g) PlannerOps \<Rightarrow> ('w, 'r) Vertex \<Rightarrow> 'obs
   \<Rightarrow> ('w, 'r, 'obs, 'map, 'q) Run \<Rightarrow> ('w, 'r, 'obs, 'map, 'q) Run" where
  "doExpand ops v obstacles run =
     called [Expand v] (run\<lparr>planner := expand ops v obstacles (planner run)\<rparr>)"

text \<open>\<open>m_BestVertex\<close> is null or the vertex has the smaller \<open>f\<close>.\<close>

definition betterThanBest ::
  "('w, 'r, 'obs, 'map, 'q, 'g) PlannerOps \<Rightarrow> ('w, 'r) Vertex
   \<Rightarrow> ('w, 'r, 'obs, 'map, 'q) AStarPlanner \<Rightarrow> bool" where
  "betterThanBest ops v pl =
     (case m_BestVertex pl of None \<Rightarrow> True | Some b \<Rightarrow> vertexF ops v < vertexF ops b)"

text \<open>
  \<open>AStarPlanner::aStar\<close>: the loop \<open>while (now() < endTime)\<close> after the first pop. The
  loop ends only when the clock passes \<open>endTime\<close>, the goal is met or the queue runs
  empty, so it is a partial function.
\<close>

partial_function (option) aStarLoop ::
  "('w, 'r, 'obs, 'map, 'q, 'g) PlannerOps \<Rightarrow> 'obs \<Rightarrow> real \<Rightarrow> ('w, 'r) Vertex
   \<Rightarrow> ('w, 'r, 'obs, 'map, 'q) Run
   \<Rightarrow> (('w, 'r) Vertex option \<times> ('w, 'r, 'obs, 'map, 'q) Run) option" where
  "aStarLoop ops obstacles endTime vertex run =
     (if now ops (clock run) < endTime then
        (if goalCondition ops vertex \<and> betterThanBest ops vertex (planner run)
         then Some (Some vertex, tick run)
         else if vertexQueueEmpty ops
                   (m_VertexQueue (planner (doExpand ops vertex obstacles (tick run))))
         then Some (None, doExpand ops vertex obstacles (tick run))
         else aStarLoop ops obstacles endTime
                (fst (doPopVertexQueue ops (doExpand ops vertex obstacles (tick run))))
                (snd (doPopVertexQueue ops (doExpand ops vertex obstacles (tick run)))))
      else Some (None, tick run))"

definition aStar ::
  "('w, 'r, 'obs, 'map, 'q, 'g) PlannerOps \<Rightarrow> 'obs \<Rightarrow> real \<Rightarrow> ('w, 'r, 'obs, 'map, 'q) Run
   \<Rightarrow> (('w, 'r) Vertex option \<times> ('w, 'r, 'obs, 'map, 'q) Run) option" where
  "aStar ops obstacles endTime run =
     aStarLoop ops obstacles endTime (fst (doPopVertexQueue ops run))
       (snd (doPopVertexQueue ops run))"

text \<open>\<open>AStarPlanner::expandToCoverSpecificSamples\<close>.\<close>

definition coverSample ::
  "('w, 'r, 'obs, 'map, 'q, 'g) PlannerOps \<Rightarrow> ('w, 'r) Vertex \<Rightarrow> bool
   \<Rightarrow> ('w, 'r, 'obs, 'map, 'q) Run \<Rightarrow> State \<Rightarrow> ('w, 'r, 'obs, 'map, 'q) Run" where
  "coverSample ops rootV coverageAllowed run s =
     (let destinationVertex =
            ConnectState rootV (s\<lparr>state_speed := cfg_MaxSpeed (m_Config (planner run))\<rparr>)
              (cfg_CoverageTurningRadius (m_Config (planner run))) coverageAllowed
      in doPushVertexQueue ops destinationVertex (called [ComputeTrueCost destinationVertex] run))"

definition expandToCoverSpecificSamples ::
  "('w, 'r, 'obs, 'map, 'q, 'g) PlannerOps \<Rightarrow> ('w, 'r) Vertex \<Rightarrow> State list \<Rightarrow> 'obs \<Rightarrow> bool
   \<Rightarrow> ('w, 'r, 'obs, 'map, 'q) Run \<Rightarrow> ('w, 'r, 'obs, 'map, 'q) Run" where
  "expandToCoverSpecificSamples ops rootV samples obstacles coverageAllowed run =
     (if cfg_CoverageTurningRadius (m_Config (planner run)) > 0
      then foldl (coverSample ops rootV coverageAllowed) run samples
      else run)"

text \<open>
  Lines 124-135 of \<open>plan\<close>: the previous plan is connected path by path from the last
  vertex reached; each new edge has its true cost computed, and the first infeasible one
  sends \<open>lastPlanEnd\<close> back to \<open>startV\<close> and ends the loop.
\<close>

fun reconnect ::
  "('w, 'r, 'obs, 'map, 'q, 'g) PlannerOps \<Rightarrow> ('obs, 'map) PlannerConfig \<Rightarrow> ('w, 'r) Vertex
   \<Rightarrow> ('w, 'r) Vertex \<Rightarrow> 'w list \<Rightarrow> ('w, 'r) Vertex \<times> ('w, 'r) PlannerCall list" where
  "reconnect ops cfg startV lastPlanEnd [] = (lastPlanEnd, [])"
| "reconnect ops cfg startV lastPlanEnd (p # ps) =
     (if edgeInfeasible ops cfg (ConnectPath lastPlanEnd p)
      then (startV, [ComputeTrueCost (ConnectPath lastPlanEnd p)])
      else (fst (reconnect ops cfg startV (ConnectPath lastPlanEnd p) ps),
            ComputeTrueCost (ConnectPath lastPlanEnd p)
              # snd (reconnect ops cfg startV (ConnectPath lastPlanEnd p) ps)))"

definition collisionCheckOldPlan ::
  "('w, 'r, 'obs, 'map, 'q, 'g) PlannerOps \<Rightarrow> ('obs, 'map) PlannerConfig \<Rightarrow> ('w, 'r) Vertex
   \<Rightarrow> 'w list \<Rightarrow> ('w, 'r) Vertex \<times> ('w, 'r) PlannerCall list" where
  "collisionCheckOldPlan ops cfg startV previousPlan =
     (if previousPlan \<noteq> [] then reconnect ops cfg startV startV previousPlan else (startV, []))"

text \<open>
  The test at the top of the big loop of \<open>plan\<close>:
  \<^verbatim>\<open>m_BestVertex && m_BestVertex->f() <= startV->f()\<close>.
\<close>

definition foundBestPossible ::
  "('w, 'r, 'obs, 'map, 'q, 'g) PlannerOps \<Rightarrow> ('w, 'r) Vertex
   \<Rightarrow> ('w, 'r, 'obs, 'map, 'q) AStarPlanner \<Rightarrow> bool" where
  "foundBestPossible ops startV pl =
     (case m_BestVertex pl of None \<Rightarrow> False | Some b \<Rightarrow> vertexF ops b \<le> vertexF ops startV)"

text \<open>
  Lines 143-152: the queue is seeded with the start vertex, the end of the previous plan
  and the vertices on nearby ribbons, and samples are added. The value is the generator and
  the run.
\<close>

definition seedQueue ::
  "('w, 'r, 'obs, 'map, 'q, 'g) PlannerOps \<Rightarrow> ('w, 'r) Vertex \<Rightarrow> ('w, 'r) Vertex
   \<Rightarrow> State list \<Rightarrow> State list \<Rightarrow> 'g \<Rightarrow> ('w, 'r, 'obs, 'map, 'q) Run
   \<Rightarrow> 'g \<times> ('w, 'r, 'obs, 'map, 'q) Run" where
  "seedQueue ops startV lastPlanEnd ribbonSamples otherRibbonSamples generator run =
     (let run1 = doPushVertexQueue ops startV (called [VisualizeVertex startV ''start''] run);
          run2 = (if lastPlanEnd \<noteq> startV then doPushVertexQueue ops lastPlanEnd run1 else run1);
          run3 = expandToCoverSpecificSamples ops startV ribbonSamples
                   (cfg_Obstacles (m_Config (planner run2))) True run2;
          run4 = expandToCoverSpecificSamples ops startV otherRibbonSamples
                   (cfg_Obstacles (m_Config (planner run3))) True run3;
          n = (if length (m_Samples (planner run4)) < c_InitialSamples ops
               then Some (c_InitialSamples ops) else None);
          added = addSamples ops generator n (m_Samples (planner run4))
      in (fst added,
          called [AddSamples n] (run4\<lparr>planner := (planner run4)\<lparr>m_Samples := snd added\<rparr>\<rparr>)))"

text \<open>Lines 154-159: a better vertex replaces \<open>m_BestVertex\<close>; the iteration is counted.\<close>

definition recordResult ::
  "('w, 'r, 'obs, 'map, 'q, 'g) PlannerOps \<Rightarrow> ('w, 'r) Vertex option
   \<Rightarrow> ('w, 'r, 'obs, 'map, 'q) Run \<Rightarrow> ('w, 'r, 'obs, 'map, 'q) Run" where
  "recordResult ops v run =
     (let run1 =
            (if (case m_BestVertex (planner run) of
                   None \<Rightarrow> True
                 | Some b \<Rightarrow> (case v of None \<Rightarrow> False | Some g \<Rightarrow> vertexF ops g < vertexF ops b))
             then called (case v of None \<Rightarrow> [] | Some g \<Rightarrow> [VisualizeVertex g ''goal''])
                    (run\<lparr>planner := (planner run)\<lparr>m_BestVertex := v\<rparr>\<rparr>)
             else run)
      in run1\<lparr>planner := (planner run1)\<lparr>m_IterationCount := Suc (m_IterationCount (planner run1))\<rparr>\<rparr>)"

text \<open>
  The big loop of \<open>plan\<close>, \<open>while (now() < endTime)\<close>. With a clock that never reaches
  \<open>endTime\<close> it does not end, so it is a partial function.
\<close>

partial_function (option) planOuterLoop ::
  "('w, 'r, 'obs, 'map, 'q, 'g) PlannerOps \<Rightarrow> real \<Rightarrow> ('w, 'r) Vertex \<Rightarrow> ('w, 'r) Vertex
   \<Rightarrow> State list \<Rightarrow> State list \<Rightarrow> 'g \<Rightarrow> ('w, 'r, 'obs, 'map, 'q) Run
   \<Rightarrow> ('g \<times> ('w, 'r, 'obs, 'map, 'q) Run) option" where
  "planOuterLoop ops endTime startV lastPlanEnd ribbonSamples otherRibbonSamples generator run =
     (if now ops (clock run) < endTime then
        (if foundBestPossible ops startV (planner (doClearVertexQueue ops (tick run)))
         then Some (generator,
                    called [OutputLine ''Found best possible plan, assuming heuristic admissibility'']
                      (doClearVertexQueue ops (tick run)))
         else
           (case aStar ops
                   (cfg_Obstacles (m_Config (planner
                      (snd (seedQueue ops startV lastPlanEnd ribbonSamples otherRibbonSamples
                              generator (doClearVertexQueue ops (tick run)))))))
                   endTime
                   (snd (seedQueue ops startV lastPlanEnd ribbonSamples otherRibbonSamples
                           generator (doClearVertexQueue ops (tick run)))) of
              None \<Rightarrow> None
            | Some found \<Rightarrow>
                planOuterLoop ops endTime startV lastPlanEnd ribbonSamples otherRibbonSamples
                  (fst (seedQueue ops startV lastPlanEnd ribbonSamples otherRibbonSamples
                          generator (doClearVertexQueue ops (tick run))))
                  (recordResult ops (fst found) (snd found))))
      else Some (generator, tick run))"





text \<open>
  The chain of vertices the previous plan makes from a vertex: one vertex for each path,
  each the child of the one before.
\<close>

fun chainVertices :: "('w, 'r) Vertex \<Rightarrow> 'w list \<Rightarrow> ('w, 'r) Vertex list" where
  "chainVertices v [] = []"
| "chainVertices v (p # ps) = ConnectPath v p # chainVertices (ConnectPath v p) ps"

section \<open>Concrete instances\<close>

text \<open>
  Small instances of the collaborators, on which the model runs: a vessel at rest at the
  origin, a clock that advances a tenth of a second per reading, a controller that answers
  every plan with the same state, and a vertex queue kept as a list in insertion order.
\<close>

definition testConstants :: Constants where
  "testConstants =
     \<lparr>c_PlanningTimeSeconds = 1, c_ReusePlanEnabled = True, c_RadiusShrinkEnabled = True,
      c_RadiusShrinkAmount = 1 / 2, c_CoverageHeadingRateMax = 1\<rparr>"

definition testState :: "real \<Rightarrow> State" where
  "testState t = \<lparr>state_x = 0, state_y = 0, state_heading = 0, state_speed = 0, state_time = t\<rparr>"

definition testConfig :: "(unit, MapFormat) PlannerConfig" where
  "testConfig = \<lparr>cfg_MaxSpeed = 5 / 2, cfg_TurningRadius = 8, cfg_CoverageTurningRadius = 8,
                  cfg_BranchingFactor = 9, cfg_Obstacles = (), cfg_Map = None,
                  cfg_StartStateTime = 0\<rparr>"

definition testExecutive :: "((real \<times> real) list, unit, MapFormat, nat) Executive" where
  "testExecutive =
     \<lparr>m_LastHeading = 0, m_LastUpdateTime = 0, m_LastState = testState 9,
      m_RibbonManager = RibbonManager_new [] MaxDistance 8 2,
      m_PlannerState = Running, m_PlannerConfig = testConfig,
      m_DynamicObstaclesManager = (), m_NewMap = None, m_CurrentMapPath = [],
      m_RadiusShrink = 0, ribbonWidth = 2, cerr = [], clockReads = 0, published = []\<rparr>"

text \<open>
  \<open>State::push\<close> on a vessel at rest: straight-line motion at speed 0 leaves the place
  and the heading, and the time advances.
\<close>

definition pushAtRest :: "State \<Rightarrow> real \<Rightarrow> State" where
  "pushAtRest s dt = s\<lparr>state_time := state_time s + dt\<rparr>"

definition testCollaborators :: "((real \<times> real) list, unit, MapFormat, nat) Collaborators" where
  "testCollaborators =
     \<lparr>getTime = (\<lambda>n. 10 + real n / 10), mapTryLock = (\<lambda>n. True), ribbonsDone = (\<lambda>rm. False),
      coverBetween = (\<lambda>x1 y1 x2 y2 rm. rm), push = pushAtRest,
      changeIntoSuffix = (\<lambda>t p. p), plannerPlan = (\<lambda>rm s cfg p t. Inr [1, 2]),
      getHalfSecondSamples = (\<lambda>p. []), publishPlan = (\<lambda>p. testState 12),
      sample = (\<lambda>p s. s\<lparr>state_x := 5\<rparr>),
      isCoLocated = (\<lambda>a b. state_x a = state_x b \<and> state_y a = state_y b),
      headingDifference = (\<lambda>a b. state_heading a - state_heading b),
      newState = testState (-1), showDouble = (\<lambda>r. ''?'')\<rparr>"

text \<open>
  A planner that returns the two-path plan \<open>[1, 2]\<close> when it is given no previous plan
  and the one-path plan \<open>[3]\<close> otherwise, and a controller whose answer lies on plans of
  two paths only: the first plan is followed, the second is not.
\<close>

definition driftingCollaborators :: "((real \<times> real) list, unit, MapFormat, nat) Collaborators" where
  "driftingCollaborators =
     testCollaborators
       \<lparr>plannerPlan := (\<lambda>rm s cfg p t. if p = [] then Inr [1, 2] else Inr [3]),
        publishPlan := (\<lambda>p. (testState 12)\<lparr>state_x := real (length p)\<rparr>),
        sample := (\<lambda>p s. s\<lparr>state_x := 2\<rparr>)\<rparr>"

fun pathsTo :: "('w, 'r) Vertex \<Rightarrow> 'w list" where
  "pathsTo (Root s rm) = []"
| "pathsTo (ConnectPath v p) = pathsTo v @ [p]"
| "pathsTo (ConnectState v s r c) = pathsTo v"

fun isRoot :: "('w, 'r) Vertex \<Rightarrow> bool" where
  "isRoot (Root s rm) = True"
| "isRoot (ConnectPath v p) = False"
| "isRoot (ConnectState v s r c) = False"

fun endsInPath :: "'w \<Rightarrow> ('w, 'r) Vertex \<Rightarrow> bool" where
  "endsInPath w (Root s rm) = False"
| "endsInPath w (ConnectPath v p) = (p = w)"
| "endsInPath w (ConnectState v s r c) = False"

type_synonym TestVertex = "(nat, (real \<times> real) list) Vertex"

text \<open>
  Planner helpers for a run: the clock reads \<open>n\<close> seconds at its \<open>n\<close>-th reading, the
  path \<open>0\<close> is the infeasible one, every vertex but the root meets the goal, and the
  queue is first in, first out.
\<close>

definition testOps ::
  "(nat, (real \<times> real) list, unit, MapFormat, TestVertex list, nat) PlannerOps" where
  "testOps =
     \<lparr>now = real, timeHorizon = 30, c_InitialSamples = 2,
      changeHeuristicIfTooManyRibbons = (\<lambda>rm. rm),
      newStateGenerator = (\<lambda>minX maxX minY maxY minSpeed maxSpeed seed rm. 0),
      findStatesOnRibbonsOnCircle = (\<lambda>rm s r. []),
      findNearStatesOnRibbons = (\<lambda>rm s r. []),
      vertexF = (\<lambda>v. if isRoot v then 5 else 3),
      edgeInfeasible = (\<lambda>cfg v. endsInPath 0 v),
      goalCondition = (\<lambda>v. \<not> isRoot v),
      clearVertexQueue = (\<lambda>q. []),
      pushVertexQueue = (\<lambda>v pl. m_VertexQueue pl @ [v]),
      popVertexQueue = (\<lambda>pl. (hd (m_VertexQueue pl), tl (m_VertexQueue pl))),
      vertexQueueEmpty = (\<lambda>q. q = []),
      expand = (\<lambda>v obs pl. pl\<lparr>m_ExpandedCount := Suc (m_ExpandedCount pl)\<rparr>),
      addSamples = (\<lambda>g n samples. (g, samples)),
      tracePlan = (\<lambda>v smooth obs. pathsTo v)\<rparr>"

definition testRoot :: TestVertex where
  "testRoot = Root (testState 0) (RibbonManager_new [] MaxDistance 8 2)"

definition testRun ::
  "(nat, (real \<times> real) list, unit, MapFormat, TestVertex list) Run" where
  "testRun =
     \<lparr>planner = \<lparr>m_Config = testConfig,
                  m_PlannerRibbonManager = RibbonManager_new [] MaxDistance 8 2,
                  m_ExpandedCount = 0, m_IterationCount = 0, m_StartStateTime = 0,
                  m_Samples = [], m_BestVertex = None, m_VertexQueue = []\<rparr>,
      clock = 0, calls = []\<rparr>"

text \<open>\<open>testRun\<close> with a best vertex already found: the child of the root along path 1.\<close>

definition testRunWithBest ::
  "(nat, (real \<times> real) list, unit, MapFormat, TestVertex list) Run" where
  "testRunWithBest =
     testRun\<lparr>planner := (planner testRun)\<lparr>m_BestVertex := Some (ConnectPath testRoot 1)\<rparr>\<rparr>"

lemmas loop_defs = planLoopIteration_def Let_def readClock_def publisherCalls_def logErr_def
  prepareIteration_def installNewMap_def synthesizeStartState_def updateLastPlan_def
  shrinkTurningRadius_def tryPlanning_def planningAttempt_def installObstacles_def
  sleepAndDisplay_def publishAndCheck_def resetRadiusShrink_def


lemmas test_defs = testConstants_def testState_def testConfig_def testExecutive_def
  pushAtRest_def testCollaborators_def driftingCollaborators_def testOps_def testRoot_def
  testRun_def testRunWithBest_def RibbonManager_new_def

section \<open>Properties of the state machine and of clearRibbons\<close>

text \<open>
  C9. \<open>cancelPlanner\<close> changes the planner state only when it is \<open>Running\<close>, which
  becomes \<open>Cancelled\<close>; from \<open>Inactive\<close> and from \<open>Cancelled\<close> the whole executive is
  returned as it was. The three equations cover every state of the state machine.
\<close>

theorem cancelPlanner_only_from_Running:
  "cancelPlanner (ex\<lparr>m_PlannerState := Running\<rparr>) = ex\<lparr>m_PlannerState := Cancelled\<rparr>
   \<and> cancelPlanner (ex\<lparr>m_PlannerState := Inactive\<rparr>) = ex\<lparr>m_PlannerState := Inactive\<rparr>
   \<and> cancelPlanner (ex\<lparr>m_PlannerState := Cancelled\<rparr>) = ex\<lparr>m_PlannerState := Cancelled\<rparr>"
  by (simp add: cancelPlanner_def)

text \<open>
  C10. \<open>clearRibbons\<close> installs a freshly constructed ribbon manager (no ribbons,
  heuristic \<open>TspPointRobotNoSplitKRibbons\<close>, the configured turning radius, \<open>k = 2\<close>),
  whatever heuristic an earlier \<open>setConfiguration\<close> selected.
\<close>

theorem clearRibbons_resets_heuristic:
  "m_RibbonManager (clearRibbons noRibbons (setConfiguration tr ctr ms lw k h ex)) =
     RibbonManager_new noRibbons TspPointRobotNoSplitKRibbons tr 2
   \<and> rm_Heuristic (m_RibbonManager (clearRibbons noRibbons (setConfiguration tr ctr ms lw k h ex)))
       = TspPointRobotNoSplitKRibbons
   \<and> rm_Heuristic (m_RibbonManager (clearRibbons noRibbons ex)) = TspPointRobotNoSplitKRibbons"
  by (simp add: clearRibbons_def setConfiguration_def selectHeuristic_def RibbonManager_new_def)

section \<open>The heading-rate gate of updateCovered\<close>

text \<open>
  C1. The gate of \<open>updateCovered\<close> is not the heading rate \<open>|\<Delta>heading| / \<Delta>t\<close>: it divides
  the signed difference \<open>m_LastHeading - heading\<close> by the time of the previous call. For
  every bound \<open>c > 0\<close> there are two consecutive calls whose heading rate exceeds \<open>c\<close>
  and the second of which covers all the same (heading 0 at time 1, then heading 1 at time
  \<open>1 + 1/(c+1)\<close>), and two whose heading rate is below \<open>c\<close> and the second of which
  covers nothing (heading 1 at time \<open>1/(c+1)\<close>, then heading 0 at a time \<open>2/c\<close> later).
\<close>

theorem updateCovered_gate_is_not_the_heading_rate:
  assumes "0 < c_CoverageHeadingRateMax k"
  shows "(let c = c_CoverageHeadingRateMax k;
              first = updateCovered k cover x0 y0 v0 0 1 ex
          in c < observedHeadingRate 0 1 1 (1 + 1 / (c + 1))
             \<and> m_RibbonManager (updateCovered k cover x y v 1 (1 + 1 / (c + 1)) first)
                 = cover x y (m_RibbonManager first))
       \<and> (let c = c_CoverageHeadingRateMax k;
               first = updateCovered k cover x0 y0 v0 1 (1 / (c + 1)) ex
           in observedHeadingRate 1 (1 / (c + 1)) 0 (1 / (c + 1) + 2 / c) < c
              \<and> m_RibbonManager (updateCovered k cover x y v 0 (1 / (c + 1) + 2 / c) first)
                  = m_RibbonManager first)"
  using assms
  by (simp add: Let_def updateCovered_def headingRateGate_def observedHeadingRate_def field_simps)

text \<open>
  With the bound 1 and a ribbon manager that records the calls: a turn of 2 rad/s is
  covered at (5, 5), and a turn of 0.5 rad/s is not.
\<close>

theorem updateCovered_gate_is_not_the_heading_rate_witness:
  "1 < observedHeadingRate 0 1 1 (3 / 2)
   \<and> rm_Ribbons (m_RibbonManager
        (updateCovered testConstants recordCover 5 5 1 1 (3 / 2)
           (updateCovered testConstants recordCover 0 0 1 0 1 testExecutive))) = [(5, 5)]
   \<and> rm_Ribbons (m_RibbonManager
        (updateCovered testConstants recordCover 0 0 1 0 1 testExecutive)) = []
   \<and> observedHeadingRate 1 (1 / 2) 0 (5 / 2) < 1
   \<and> rm_Ribbons (m_RibbonManager
        (updateCovered testConstants recordCover 5 5 1 0 (5 / 2)
           (updateCovered testConstants recordCover 0 0 1 1 (1 / 2) testExecutive))) = [(0, 0)]
   \<and> rm_Ribbons (m_RibbonManager
        (updateCovered testConstants recordCover 0 0 1 1 (1 / 2) testExecutive)) = [(0, 0)]"
  using updateCovered_gate_is_not_the_heading_rate
          [of testConstants recordCover 0 0 1 testExecutive 5 5 1]
  by (simp add: test_defs Let_def updateCovered_def headingRateGate_def recordCover_def
        observedHeadingRate_def)

section \<open>The planning loop: start state, divergence, exceptions\<close>

lemma installNewMap_frame [simp]:
  "m_LastState (installNewMap b ex) = m_LastState ex"
  "clockReads (installNewMap b ex) = clockReads ex"
  "m_PlannerState (installNewMap b ex) = m_PlannerState ex"
  by (simp_all add: installNewMap_def split: option.splits)

text \<open>
  The interval the specification names, \<open>P - (now - lastStateTime)\<close>, is not the one the
  loop pushes by: with the clock at 10, \<open>P = 1\<close> and a last state of time 9 the loop
  pushes by 2 seconds, to time 11, and the named interval is 0.
\<close>

theorem synthesized_start_state_counterexample:
  "fst (snd (prepareIteration testCollaborators testConstants (testExecutive, testState (-1), [])))
     \<noteq> push testCollaborators (m_LastState testExecutive)
          (c_PlanningTimeSeconds testConstants
             - (getTime testCollaborators (clockReads testExecutive)
                  - state_time (m_LastState testExecutive)))"
  by (simp add: prepareIteration_def synthesizeStartState_def Let_def test_defs)

text \<open>
  C2, amended. When the start state carries the sentinel time \<open>-1\<close>, the iteration plans
  from \<open>m_LastState\<close> pushed forward by \<open>now + P - lastStateTime\<close>, that is by
  \<open>P + (now - lastStateTime)\<close>, where \<open>now\<close> is the clock reading taken at that point.
\<close>

theorem synthesized_start_state:
  assumes "state_time startState = -1"
  shows "fst (snd (prepareIteration env k (ex, startState, previous)))
           = push env (m_LastState ex)
               (getTime env (clockReads ex) + c_PlanningTimeSeconds k - state_time (m_LastState ex))
         \<and> synthesizeStartState pushFn k reading lastState startState
           = pushFn lastState (c_PlanningTimeSeconds k + (reading - state_time lastState))"
  using assms by (simp add: prepareIteration_def synthesizeStartState_def Let_def algebra_simps)

theorem synthesized_start_state_witness:
  "state_time (testState (-1)) = -1
   \<and> fst (snd (prepareIteration testCollaborators testConstants (testExecutive, testState (-1), [])))
       = testState 11"
  using synthesized_start_state [of "testState (-1)" testCollaborators testConstants testExecutive "[]"]
  by (simp add: test_defs)

text \<open>
  What lines 148-187 do with a plan that is not empty. When the controller's start state is
  not on the plan, the plan is reset, so the next iteration hands the planner the empty
  plan, and with the shrink enabled \<open>m_RadiusShrink\<close> is added to both radii and set to
  zero. When it is on the plan, the plan is kept, \<open>m_RadiusShrink\<close> grows by
  \<open>c_RadiusShrinkAmount\<close>, and the configuration is left as it is.
\<close>

theorem publishAndCheck_divergence:
  assumes "previous \<noteq> []"
  shows "(let s1 = publishPlan env previous; out = publishAndCheck env k (ex, startState, previous)
          in (\<not> isCoLocated env s1 (sample env previous s1) \<longrightarrow>
                snd out = (s1, [])
                \<and> updateLastPlan (changeIntoSuffix env) k s1 (snd (snd out)) = []
                \<and> (c_RadiusShrinkEnabled k \<longrightarrow>
                     m_RadiusShrink (fst out) = 0
                     \<and> cfg_TurningRadius (m_PlannerConfig (fst out))
                         = cfg_TurningRadius (m_PlannerConfig ex) + m_RadiusShrink ex
                     \<and> cfg_CoverageTurningRadius (m_PlannerConfig (fst out))
                         = cfg_CoverageTurningRadius (m_PlannerConfig ex) + m_RadiusShrink ex))
             \<and> (isCoLocated env s1 (sample env previous s1) \<longrightarrow>
                  snd out = (s1, previous)
                  \<and> m_RadiusShrink (fst out) = m_RadiusShrink ex + c_RadiusShrinkAmount k
                  \<and> m_PlannerConfig (fst out) = m_PlannerConfig ex))"
  using assms
  by (simp add: publishAndCheck_def Let_def updateLastPlan_def resetRadiusShrink_def logErr_def
        publisherCalls_def)

theorem publishAndCheck_divergence_witness:
  "snd (publishAndCheck testCollaborators testConstants (testExecutive, testState 11, [1, 2]))
     = (testState 12, [])
   \<and> m_RadiusShrink (fst (publishAndCheck testCollaborators testConstants
                             (testExecutive\<lparr>m_RadiusShrink := 1 / 2\<rparr>, testState 11, [1, 2]))) = 0"
  using publishAndCheck_divergence [of "[1, 2]" testCollaborators testConstants
          "testExecutive\<lparr>m_RadiusShrink := 1 / 2\<rparr>" "testState 11"]
    publishAndCheck_divergence [of "[1, 2]" testCollaborators testConstants testExecutive "testState 11"]
  by (simp add: test_defs Let_def)

text \<open>
  C3. The roll-back does not restore the turning radii once an iteration has been followed
  by the controller: line 111 counts every shrink in \<open>m_RadiusShrink\<close> and line 182 counts
  it a second time when the start state is on the plan. With radii 8, a shrink of 0.5 per
  iteration and \<open>m_RadiusShrink = 0\<close>: the first iteration shrinks to 7.5, its plan is
  followed, and \<open>m_RadiusShrink\<close> is 1; the second shrinks to 7 with \<open>m_RadiusShrink\<close> 1.5,
  its plan is not followed, and the roll-back ends with both radii at 8.5, a value they
  never had, with the plan reset and \<open>m_RadiusShrink\<close> zero.
\<close>

theorem radius_rollback_overshoots:
  "cfg_TurningRadius (m_PlannerConfig testExecutive) = 8
   \<and> cfg_CoverageTurningRadius (m_PlannerConfig testExecutive) = 8
   \<and> m_RadiusShrink testExecutive = 0
   \<and> (case planLoopIteration driftingCollaborators testConstants
              (testExecutive, testState (-1), []) of
        Continue v1 \<Rightarrow>
          snd (snd v1) = [1, 2] \<and> m_RadiusShrink (fst v1) = 1
          \<and> cfg_TurningRadius (m_PlannerConfig (fst v1)) = 15 / 2
          \<and> (case planLoopIteration driftingCollaborators testConstants v1 of
                Continue v2 \<Rightarrow>
                  snd (snd v2) = [] \<and> m_RadiusShrink (fst v2) = 0
                  \<and> cfg_TurningRadius (m_PlannerConfig (fst v2)) = 17 / 2
                  \<and> cfg_CoverageTurningRadius (m_PlannerConfig (fst v2)) = 17 / 2
              | Break v2 \<Rightarrow> False
              | Rethrow v2 \<Rightarrow> False)
      | Break v1 \<Rightarrow> False
      | Rethrow v1 \<Rightarrow> False)"
  by (simp add: loop_defs test_defs)

lemma prepareIteration_state [simp]:
  "m_PlannerState (fst (prepareIteration env k (ex, startState, previous))) = m_PlannerState ex"
  by (simp add: prepareIteration_def Let_def shrinkTurningRadius_def readClock_def)

lemma sleepAndDisplay_state [simp]:
  "m_PlannerState (fst (sleepAndDisplay env k t0 (ex, startState, previous))) = m_PlannerState ex"
  by (simp add: sleepAndDisplay_def Let_def publisherCalls_def readClock_def)

lemma publishAndCheck_state [simp]:
  "m_PlannerState (fst (publishAndCheck env k (ex, startState, previous))) = m_PlannerState ex"
  by (simp add: publishAndCheck_def Let_def publisherCalls_def logErr_def resetRadiusShrink_def)

lemma planLoopIteration_Cancelled:
  "m_PlannerState (fst v) = Cancelled \<Longrightarrow>
   planLoopIteration env k v = Break (readClock (fst v), snd v)"
  by (cases v) (simp add: planLoopIteration_def Let_def readClock_def)

lemma planLoopWhile_Cancelled:
  "m_PlannerState (fst v) = Cancelled \<Longrightarrow>
   planLoopWhile env k v = Some (Break (readClock (fst v), snd v))"
  by (subst planLoopWhile.simps) (simp add: planLoopIteration_Cancelled)

lemma prepareIteration_cerr [simp]:
  "cerr (fst (prepareIteration env k (ex, startState, previous))) = cerr ex"
  by (simp add: prepareIteration_def Let_def shrinkTurningRadius_def readClock_def
        installNewMap_def split: option.splits)

lemma sleepAndDisplay_cerr [simp]:
  "cerr (fst (sleepAndDisplay env k t0 (ex, startState, previous))) = cerr ex"
  by (simp add: sleepAndDisplay_def Let_def publisherCalls_def readClock_def)

lemma publishAndCheck_cerr:
  "prefix (cerr ex) (cerr (fst (publishAndCheck env k (ex, startState, previous))))"
  by (simp add: publishAndCheck_def Let_def publisherCalls_def logErr_def resetRadiusShrink_def)

text \<open>
  C7. In an iteration of the running loop whose ribbons are not done, let \<open>prepared\<close> be
  the loop variables the \<open>try\<close> block starts from. If the planner throws a
  \<open>std::exception\<close>, the handler appends the three lines, with \<open>what()\<close> in the middle, to
  \<open>cerr\<close> and cancels: the iteration goes on to its end with the planner state
  \<open>Cancelled\<close> and with those lines on \<open>cerr\<close>, the next iteration breaks at its
  cancellation check, and the loop returns. If it throws anything else, the handler appends
  its one line to \<open>cerr\<close> and cancels, and the exception leaves the loop.
\<close>

theorem planner_exception_handling:
  assumes running: "m_PlannerState ex = Running"
    and todo: "\<not> ribbonsDone env (m_RibbonManager ex)"
    and prepared: "prepared = prepareIteration env k
                     (publisherCalls [DisplayRibbons (m_RibbonManager ex)] (readClock ex),
                      startState, previous)"
  shows "(planningAttempt env k (getTime env (clockReads ex)) prepared = Inl (StdException what) \<longrightarrow>
            tryPlanning env k (getTime env (clockReads ex)) prepared
              = Inr (logErr [''Exception thrown while planning:'', what, ''Pausing.'']
                       (readClock (installObstacles (fst prepared)))\<lparr>m_PlannerState := Cancelled\<rparr>,
                     snd prepared)
            \<and> (\<exists>handled. tryPlanning env k (getTime env (clockReads ex)) prepared
                             = Inr (handled, snd prepared)
                     \<and> cerr handled
                         = cerr ex @ [''Exception thrown while planning:'', what, ''Pausing.'']
                     \<and> m_PlannerState handled = Cancelled)
            \<and> (\<exists>v'. planLoopIteration env k (ex, startState, previous) = Continue v'
                     \<and> m_PlannerState (fst v') = Cancelled
                     \<and> prefix (cerr ex @ [''Exception thrown while planning:'', what, ''Pausing.''])
                          (cerr (fst v'))
                     \<and> planLoopIteration env k v' = Break (readClock (fst v'), snd v')
                     \<and> planLoopWhile env k (ex, startState, previous)
                         = Some (Break (readClock (fst v'), snd v'))))
       \<and> (planningAttempt env k (getTime env (clockReads ex)) prepared = Inl UnknownException \<longrightarrow>
            planLoopIteration env k (ex, startState, previous)
              = Rethrow (logErr [''Unknown exception thrown while planning; pausing'']
                           (readClock (installObstacles (fst prepared)))\<lparr>m_PlannerState := Cancelled\<rparr>,
                         snd prepared)
            \<and> planLoopWhile env k (ex, startState, previous)
              = Some (Rethrow (logErr [''Unknown exception thrown while planning; pausing'']
                           (readClock (installObstacles (fst prepared)))\<lparr>m_PlannerState := Cancelled\<rparr>,
                         snd prepared))
            \<and> (\<exists>handled. planLoopWhile env k (ex, startState, previous)
                             = Some (Rethrow (handled, snd prepared))
                     \<and> cerr handled
                         = cerr ex @ [''Unknown exception thrown while planning; pausing'']
                     \<and> m_PlannerState handled = Cancelled))"
proof -
  let ?t0 = "getTime env (clockReads ex)"
  let ?shown = "publisherCalls [DisplayRibbons (m_RibbonManager ex)] (readClock ex)"
  let ?stdLines = "[''Exception thrown while planning:'', what, ''Pausing.'']"
  let ?unkLines = "[''Unknown exception thrown while planning; pausing'']"
  have "m_PlannerState ?shown = Running"
    using running by (simp add: publisherCalls_def readClock_def)
  then have st5: "m_PlannerState (fst prepared) = Running"
    unfolding prepared by (simp only: prepareIteration_state)
  have "cerr ?shown = cerr ex"
    by (simp add: publisherCalls_def readClock_def)
  then have cerr5: "cerr (fst prepared) = cerr ex"
    unfolding prepared by (simp only: prepareIteration_cerr)
  have top: "m_PlannerState (readClock ex) \<noteq> Cancelled"
       "\<not> ribbonsDone env (m_RibbonManager (readClock ex))"
    using running todo by (simp_all add: readClock_def)
  have iter: "planLoopIteration env k (ex, startState, previous) =
                (case tryPlanning env k ?t0 prepared of
                   Inl thrown \<Rightarrow> Rethrow thrown
                 | Inr planned \<Rightarrow> Continue (publishAndCheck env k (sleepAndDisplay env k ?t0 planned)))"
    using top by (simp add: planLoopIteration_def Let_def prepared readClock_def)
  have handler: "m_PlannerState (logErr msgs (readClock (installObstacles (fst prepared)))) = Running"
    for msgs
    using st5 by (simp add: logErr_def readClock_def installObstacles_def)
  have written: "cerr (logErr msgs (readClock (installObstacles (fst prepared)))
                         \<lparr>m_PlannerState := Cancelled\<rparr>) = cerr ex @ msgs"
    for msgs
    using cerr5 by (simp add: logErr_def readClock_def installObstacles_def)
  have std: "tryPlanning env k ?t0 prepared
               = Inr (logErr ?stdLines
                        (readClock (installObstacles (fst prepared)))\<lparr>m_PlannerState := Cancelled\<rparr>,
                      snd prepared)"
    if a: "planningAttempt env k ?t0 prepared = Inl (StdException what)"
    using a handler [of ?stdLines]
    by (simp add: tryPlanning_def Let_def cancelPlanner_def case_prod_beta)
  have unk: "tryPlanning env k ?t0 prepared
               = Inl (logErr ?unkLines
                        (readClock (installObstacles (fst prepared)))\<lparr>m_PlannerState := Cancelled\<rparr>,
                      snd prepared)"
    if a: "planningAttempt env k ?t0 prepared = Inl UnknownException"
    using a handler [of ?unkLines]
    by (simp add: tryPlanning_def Let_def cancelPlanner_def case_prod_beta)
  have frame: "m_PlannerState (fst (publishAndCheck env k (sleepAndDisplay env k ?t0 (e, rest))))
                 = m_PlannerState e" for e rest
    by (cases rest) (metis prod.collapse publishAndCheck_state sleepAndDisplay_state)
  have kept: "prefix (cerr e) (cerr (fst (publishAndCheck env k (sleepAndDisplay env k ?t0 (e, rest)))))"
    for e rest
  proof -
    obtain e1 s1 p1 where sd: "sleepAndDisplay env k ?t0 (e, rest) = (e1, s1, p1)"
      by (cases "sleepAndDisplay env k ?t0 (e, rest)") auto
    have "cerr e1 = cerr e"
      using sleepAndDisplay_cerr [of env k ?t0 e "fst rest" "snd rest"] sd by simp
    then show ?thesis
      using publishAndCheck_cerr [of e1 env k s1 p1] sd by simp
  qed
  have handled1: "\<exists>handled. tryPlanning env k ?t0 prepared = Inr (handled, snd prepared)
                     \<and> cerr handled = cerr ex @ ?stdLines
                     \<and> m_PlannerState handled = Cancelled"
    if a: "planningAttempt env k ?t0 prepared = Inl (StdException what)"
    using std [OF a] written [of ?stdLines] by simp
  have part1: "\<exists>v'. planLoopIteration env k (ex, startState, previous) = Continue v'
                     \<and> m_PlannerState (fst v') = Cancelled
                     \<and> prefix (cerr ex @ ?stdLines) (cerr (fst v'))
                     \<and> planLoopIteration env k v' = Break (readClock (fst v'), snd v')
                     \<and> planLoopWhile env k (ex, startState, previous)
                         = Some (Break (readClock (fst v'), snd v'))"
    if a: "planningAttempt env k ?t0 prepared = Inl (StdException what)"
  proof -
    define v' where "v' = publishAndCheck env k (sleepAndDisplay env k ?t0
        (logErr ?stdLines
                        (readClock (installObstacles (fst prepared)))\<lparr>m_PlannerState := Cancelled\<rparr>,
                      snd prepared))"
    have c: "planLoopIteration env k (ex, startState, previous) = Continue v'"
      using iter std [OF a] by (simp add: v'_def)
    have cs: "m_PlannerState (fst v') = Cancelled"
      unfolding v'_def frame by simp
    have lg: "prefix (cerr ex @ ?stdLines) (cerr (fst v'))"
      unfolding v'_def
      using kept [of "logErr ?stdLines
                        (readClock (installObstacles (fst prepared)))\<lparr>m_PlannerState := Cancelled\<rparr>"
                     "snd prepared"]
      by (simp only: written [of ?stdLines])
    have w: "planLoopWhile env k (ex, startState, previous)
               = Some (Break (readClock (fst v'), snd v'))"
      by (subst planLoopWhile.simps) (simp add: c planLoopWhile_Cancelled [OF cs])
    show ?thesis
      using c cs lg w planLoopIteration_Cancelled [OF cs] by blast
  qed
  have part2: "planLoopWhile env k (ex, startState, previous)
              = Some (Rethrow (logErr ?unkLines
                           (readClock (installObstacles (fst prepared)))\<lparr>m_PlannerState := Cancelled\<rparr>,
                         snd prepared))"
    if a: "planningAttempt env k ?t0 prepared = Inl UnknownException"
    by (subst planLoopWhile.simps) (simp add: iter unk [OF a])
  have handled2: "\<exists>handled. planLoopWhile env k (ex, startState, previous)
                             = Some (Rethrow (handled, snd prepared))
                     \<and> cerr handled = cerr ex @ ?unkLines
                     \<and> m_PlannerState handled = Cancelled"
    if a: "planningAttempt env k ?t0 prepared = Inl UnknownException"
    using part2 [OF a] written [of ?unkLines] by simp
  show ?thesis
    using std handled1 part1 part2 handled2 unk iter by simp
qed

text \<open>
  A planner that always throws, on an executive whose \<open>cerr\<close> is empty. After a
  \<open>std::exception\<close> the loop returns with the three lines on \<open>cerr\<close> (followed by the
  line the same iteration writes for its empty plan); an unknown exception is rethrown out
  of the loop with the one line on \<open>cerr\<close>.
\<close>

theorem planner_exception_handling_witness:
  "m_PlannerState testExecutive = Running
   \<and> cerr testExecutive = []
   \<and> (\<exists>v. planLoopWhile (testCollaborators\<lparr>plannerPlan := (\<lambda>rm s cfg p t. Inl (StdException ''bad plan''))\<rparr>)
        testConstants (testExecutive, testState (-1), []) = Some (Break v)
          \<and> m_PlannerState (fst v) = Cancelled
          \<and> cerr (fst v) = [''Exception thrown while planning:'', ''bad plan'', ''Pausing.'',
                             ''Planner returned empty trajectory.''])
   \<and> (\<exists>v. planLoopWhile (testCollaborators\<lparr>plannerPlan := (\<lambda>rm s cfg p t. Inl UnknownException)\<rparr>)
        testConstants (testExecutive, testState (-1), []) = Some (Rethrow v)
          \<and> m_PlannerState (fst v) = Cancelled
          \<and> cerr (fst v) = [''Unknown exception thrown while planning; pausing''])"
proof -
  let ?std = "testCollaborators\<lparr>plannerPlan := (\<lambda>rm s cfg p t. Inl (StdException ''bad plan''))\<rparr>"
  let ?unk = "testCollaborators\<lparr>plannerPlan := (\<lambda>rm s cfg p t. Inl UnknownException)\<rparr>"
  have running: "m_PlannerState testExecutive = Running"
    by (simp add: testExecutive_def)
  have quiet: "cerr testExecutive = []"
    by (simp add: testExecutive_def)
  have todo: "\<not> ribbonsDone ?std (m_RibbonManager testExecutive)"
    "\<not> ribbonsDone ?unk (m_RibbonManager testExecutive)"
    by (simp_all add: testCollaborators_def)
  have thrown: "planningAttempt ?std testConstants t0 prepared = Inl (StdException ''bad plan'')"
    "planningAttempt ?unk testConstants t0 prepared = Inl UnknownException" for t0 prepared
    by (simp_all add: planningAttempt_def Let_def case_prod_beta)
  have evaluated:
    "(case planLoopIteration ?std testConstants (testExecutive, testState (-1), []) of
        Continue v \<Rightarrow> cerr (fst v) = [''Exception thrown while planning:'', ''bad plan'',
                                         ''Pausing.'', ''Planner returned empty trajectory.'']
      | Break v \<Rightarrow> False
      | Rethrow v \<Rightarrow> False)"
    by (simp add: loop_defs test_defs cancelPlanner_def)
  from planner_exception_handling [OF running todo(1) refl, of testConstants "testState (-1)" "[]"
         "''bad plan''"] thrown(1)
  obtain v' where it: "planLoopIteration ?std testConstants (testExecutive, testState (-1), [])
                         = Continue v'"
    and wh: "planLoopWhile ?std testConstants (testExecutive, testState (-1), [])
                     = Some (Break (readClock (fst v'), snd v'))"
    and cs: "m_PlannerState (fst v') = Cancelled"
    and lg: "prefix (cerr testExecutive @ [''Exception thrown while planning:'', ''bad plan'',
                                             ''Pausing.'']) (cerr (fst v'))"
    by blast
  have "cerr (fst v') = [''Exception thrown while planning:'', ''bad plan'', ''Pausing.'',
                          ''Planner returned empty trajectory.'']"
    using evaluated it by simp
  with wh cs
  have first: "\<exists>v. planLoopWhile ?std testConstants (testExecutive, testState (-1), [])
                          = Some (Break v) \<and> m_PlannerState (fst v) = Cancelled
                     \<and> cerr (fst v) = [''Exception thrown while planning:'', ''bad plan'',
                                        ''Pausing.'', ''Planner returned empty trajectory.'']"
    by (simp add: readClock_def)
  from planner_exception_handling [OF running todo(2) refl, of testConstants "testState (-1)" "[]"
         "''bad plan''"] thrown(2) quiet
  have second: "\<exists>v. planLoopWhile ?unk testConstants (testExecutive, testState (-1), [])
                          = Some (Rethrow v) \<and> m_PlannerState (fst v) = Cancelled
                      \<and> cerr (fst v) = [''Unknown exception thrown while planning; pausing'']"
    by auto
  show ?thesis
    using running quiet first second by blast
qed

section \<open>Map loading\<close>

lemma string_find_None: "string_find s pat = None \<longleftrightarrow> \<not> sublist pat s"
  by (induction s) (auto simp: sublist_Cons_right)

text \<open>
  The path \<open>depth.map.tiff\<close> has the extension \<open>.tiff\<close>, and the loader takes it for a
  grid-world map.
\<close>

theorem refreshMap_extension_counterexample:
  "\<not> extensionIsMap ''depth.map.tiff''
   \<and> mapFormatFor ''depth.map.tiff'' = GridWorldFormat
   \<and> m_NewMap (refreshMap (\<lambda>p lon lat. Some GeoTiffFormat) (\<lambda>p. Some GridWorldFormat)
                 ''depth.map.tiff'' 43 (-70) testExecutive) = Some GridWorldFormat"
  by (simp add: refreshMap_def mapFormatFor_def extensionIsMap_def suffix_def test_defs)

text \<open>
  C8, amended. For a path other than the current one, the loader takes the grid-world
  format exactly when \<open>.map\<close> occurs anywhere in the path (so whenever the extension is
  \<open>.map\<close>) and GeoTIFF otherwise; when the constructor throws, the two lines are logged,
  \<open>m_NewMap\<close> is null and the current path is cleared.
\<close>

theorem refreshMap_by_substring:
  assumes "m_CurrentMapPath ex \<noteq> p"
  shows "refreshMap g w p lat lon ex =
           (case (if sublist ''.map'' p then w p else g p lon lat) of
              Some m \<Rightarrow> ex\<lparr>m_NewMap := Some m, m_CurrentMapPath := p\<rparr>
            | None \<Rightarrow>
                ex\<lparr>cerr := cerr ex @ [''Encountered an error loading map at path '' @ p @ ''.'',
                                       ''Map was not updated.''],
                   m_NewMap := None, m_CurrentMapPath := []\<rparr>)
         \<and> (extensionIsMap p \<longrightarrow> sublist ''.map'' p)"
  using assms
  by (auto simp add: refreshMap_def mapFormatFor_def string_find_None extensionIsMap_def
        suffix_def sublist_def split: option.splits)

theorem refreshMap_by_substring_witness:
  "m_CurrentMapPath testExecutive \<noteq> ''missing.map''
   \<and> m_NewMap (refreshMap (\<lambda>p lon lat. Some GeoTiffFormat) (\<lambda>p. None) ''missing.map'' 43 (-70)
        (testExecutive\<lparr>m_NewMap := Some GeoTiffFormat\<rparr>)) = None
   \<and> cerr (refreshMap (\<lambda>p lon lat. Some GeoTiffFormat) (\<lambda>p. None) ''missing.map'' 43 (-70)
        (testExecutive\<lparr>m_NewMap := Some GeoTiffFormat\<rparr>))
       = [''Encountered an error loading map at path missing.map.'', ''Map was not updated.'']
   \<and> m_NewMap (refreshMap (\<lambda>p lon lat. Some GeoTiffFormat) (\<lambda>p. Some GridWorldFormat)
        ''depth.tiff'' 43 (-70) testExecutive) = Some GeoTiffFormat"
  using refreshMap_by_substring [of "testExecutive\<lparr>m_NewMap := Some GeoTiffFormat\<rparr>"
          "''missing.map''" "\<lambda>p lon lat. Some GeoTiffFormat" "\<lambda>p. None" 43 "-70"]
    refreshMap_by_substring [of "testExecutive" "''depth.tiff''" "\<lambda>p lon lat. Some GeoTiffFormat"
          "\<lambda>p. Some GridWorldFormat" 43 "-70"]
  by (simp add: test_defs sublist_code)

section \<open>The planner: previous plan, early termination, result\<close>

lemma reconnect_chain:
  "reconnect ops cfg startV v ps =
     (if list_all (\<lambda>u. \<not> edgeInfeasible ops cfg u) (chainVertices v ps)
      then (last (v # chainVertices v ps), map ComputeTrueCost (chainVertices v ps))
      else (startV,
            map ComputeTrueCost
              (take (Suc (length (takeWhile (\<lambda>u. \<not> edgeInfeasible ops cfg u) (chainVertices v ps))))
                 (chainVertices v ps))))"
  by (induction ps arbitrary: v) simp_all

text \<open>
  C5. The previous plan is connected as the chain of vertices from \<open>startV\<close>. When every
  edge of the chain is feasible, every edge has its true cost computed and \<open>lastPlanEnd\<close>
  is the last vertex of the chain. Otherwise the costs are computed for the feasible edges
  before the first infeasible one and for that one, for none after it, and \<open>lastPlanEnd\<close>
  is \<open>startV\<close>. (For the empty plan the chain is empty and \<open>lastPlanEnd\<close> is \<open>startV\<close>.)
\<close>

theorem previous_plan_reconnected:
  "collisionCheckOldPlan ops cfg startV previousPlan =
     (if list_all (\<lambda>u. \<not> edgeInfeasible ops cfg u) (chainVertices startV previousPlan)
      then (last (startV # chainVertices startV previousPlan),
            map ComputeTrueCost (chainVertices startV previousPlan))
      else (startV,
            map ComputeTrueCost
              (take (Suc (length (takeWhile (\<lambda>u. \<not> edgeInfeasible ops cfg u)
                                    (chainVertices startV previousPlan))))
                 (chainVertices startV previousPlan))))"
  by (cases previousPlan)
     (simp_all add: collisionCheckOldPlan_def reconnect_chain del: reconnect.simps)

text \<open>
  The plan \<open>[1, 2]\<close> is feasible and ends the chain at its second vertex; in \<open>[1, 0, 2]\<close>
  the second edge is infeasible, the third is never costed, and the end is the root.
\<close>

theorem previous_plan_reconnected_witness:
  "collisionCheckOldPlan testOps testConfig testRoot [1, 2]
     = (ConnectPath (ConnectPath testRoot 1) 2,
        [ComputeTrueCost (ConnectPath testRoot 1),
         ComputeTrueCost (ConnectPath (ConnectPath testRoot 1) 2)])
   \<and> collisionCheckOldPlan testOps testConfig testRoot [1, 0, 2]
     = (testRoot,
        [ComputeTrueCost (ConnectPath testRoot 1),
         ComputeTrueCost (ConnectPath (ConnectPath testRoot 1) 0)])"
  using previous_plan_reconnected [of testOps testConfig testRoot "[1, 2]"]
    previous_plan_reconnected [of testOps testConfig testRoot "[1, 0, 2]"]
  by (simp add: testOps_def)

text \<open>
  C4. When \<open>m_BestVertex\<close> is a vertex with \<open>f\<close> at most that of \<open>startV\<close> as the big
  loop comes to the top of an iteration, the loop ends there. If the clock is before
  \<open>endTime\<close> the body is entered, and the run returned differs from the one the iteration
  started from by the clock reading, the cleared queue and the line written to the output;
  if not, by the clock reading alone. Nothing is pushed, no sample is added, and \<open>aStar\<close>
  (which begins with a pop) does not run.
\<close>

theorem outer_loop_stops_at_best_possible:
  assumes "m_BestVertex (planner run) = Some b"
    and "vertexF ops b \<le> vertexF ops startV"
  shows "planOuterLoop ops endTime startV lastPlanEnd ribbonSamples otherRibbonSamples generator run
           = Some (generator,
                   if now ops (clock run) < endTime
                   then run\<lparr>planner := (planner run)\<lparr>m_VertexQueue :=
                                           clearVertexQueue ops (m_VertexQueue (planner run))\<rparr>,
                            clock := Suc (clock run),
                            calls := calls run @
                              [ClearVertexQueue,
                               OutputLine ''Found best possible plan, assuming heuristic admissibility'']\<rparr>
                   else run\<lparr>clock := Suc (clock run)\<rparr>)"
  using assms
  by (subst planOuterLoop.simps)
     (simp add: foundBestPossible_def doClearVertexQueue_def tick_def called_def)

theorem outer_loop_stops_at_best_possible_witness:
  "planOuterLoop testOps 4 testRoot (ConnectPath testRoot 1) [testState 1] [] 0 testRunWithBest
   = Some (0, testRunWithBest
                \<lparr>clock := 1,
                 calls := [ClearVertexQueue,
                           OutputLine ''Found best possible plan, assuming heuristic admissibility'']\<rparr>)"
  using outer_loop_stops_at_best_possible [of testRunWithBest "ConnectPath testRoot 1" testOps
          testRoot 4 "ConnectPath testRoot 1" "[testState 1]" "[]" 0]
  by (simp add: testOps_def testRun_def testRunWithBest_def)

lemma clock_frames [simp]:
  "clock (called cs run) = clock run"
  "clock (tick run) = Suc (clock run)"
  "clock (doClearVertexQueue ops run) = clock run"
  "clock (doPushVertexQueue ops v run) = clock run"
  "clock (snd (doPopVertexQueue ops run)) = clock run"
  "clock (doExpand ops v obs run) = clock run"
  "clock (recordResult ops found run) = clock run"
  by (simp_all add: called_def tick_def doClearVertexQueue_def doPushVertexQueue_def
        doPopVertexQueue_def doExpand_def recordResult_def Let_def)

lemma clock_coverSamples [simp]:
  "clock (foldl (coverSample ops rootV allowed) run samples) = clock run"
  by (induction samples arbitrary: run) (simp_all add: coverSample_def Let_def)

lemma clock_expandToCover [simp]:
  "clock (expandToCoverSpecificSamples ops rootV samples obs allowed run) = clock run"
  by (simp add: expandToCoverSpecificSamples_def)

lemma clock_seedQueue [simp]:
  "clock (snd (seedQueue ops startV lastPlanEnd rs ors g run)) = clock run"
  by (simp add: seedQueue_def Let_def)







end
